theory Spec2Isabelle
  imports Main
begin

section \<open>Data model (models.py)\<close>

text \<open>
  The engine of \<^verbatim>\<open>hashing_algorithms.py\<close> keeps no slot in memory: every slot is a row of
  the database table \<^verbatim>\<open>HashTableSlot\<close>, found by (algorithm type, slot index), and every
  element of a chain is a row of \<^verbatim>\<open>ChainedElement\<close> that points to its slot. A table
  object only ever touches the rows of its own algorithm type, so the state of one table is
  its fields together with those rows.

  Keys and values are the strings the columns hold (\<^verbatim>\<open>CharField\<close>, \<^verbatim>\<open>TextField\<close>); the two
  columns of a slot are nullable, so they are options, and \<open>None\<close> is Python's \<^verbatim>\<open>None\<close>.
  The elements chained to a slot are kept inside the slot's row, in creation order, which
  is what the foreign key with \<^verbatim>\<open>related_name='chained_elements'\<close> gives.

  The database is taken to store every string as it is given and to compare keys
  exactly, as Python's \<^verbatim>\<open>==\<close> does.
\<close>

datatype algorithm = chaining | linear_probing | quadratic_probing | double_hashing

record HashTableSlot =
  key_value :: "string option"
  actual_value :: "string option"
  chained_elements :: "(string \<times> string) list"

text \<open>The rows of one algorithm type, each with its \<^verbatim>\<open>slot_index\<close>.\<close>

type_synonym slot_rows = "(int \<times> HashTableSlot) list"

text \<open>
  The exceptions the engine can raise: Python's division by zero in \<^verbatim>\<open>%\<close>, the two
  exceptions of \<^verbatim>\<open>objects.get\<close>, and the
  \<^verbatim>\<open>Exception("Tabla hash llena. No se pudo insertar el elemento.")\<close> of the probing
  inserts, called \<open>TableFull\<close> here.
\<close>

datatype error = ZeroDivisionError | DoesNotExist | MultipleObjectsReturned | TableFull

text \<open>The fields of a \<^verbatim>\<open>HashTable\<close> object, and the rows it works on.\<close>

record HashTable =
  size' :: int
  algorithm_type :: algorithm
  collisions_count :: int
  probes_count :: int
  slots :: slot_rows

section \<open>Database access\<close>

text \<open>
  \<^verbatim>\<open>HashTableSlot.objects.get(algorithm_type=..., slot_index=index)\<close>: the row with that
  index, or \<^verbatim>\<open>DoesNotExist\<close>. (\<^verbatim>\<open>unique_together\<close> allows one row per index.)
\<close>

definition objects_get :: "slot_rows \<Rightarrow> int \<Rightarrow> error + HashTableSlot" where
  "objects_get rows index =
     (case map_of rows index of None \<Rightarrow> Inl DoesNotExist | Some slot \<Rightarrow> Inr slot)"

text \<open>\<^verbatim>\<open>slot.save()\<close> of a row read before: the row with that index is rewritten in place.\<close>

definition save :: "slot_rows \<Rightarrow> int \<Rightarrow> HashTableSlot \<Rightarrow> slot_rows" where
  "save rows index slot = map (\<lambda>(i, s). if i = index then (i, slot) else (i, s)) rows"

text \<open>The row \<^verbatim>\<open>get_or_create\<close> makes: both columns null, no chained element.\<close>

definition new_slot :: HashTableSlot where
  "new_slot = \<lparr>key_value = None, actual_value = None, chained_elements = []\<rparr>"

text \<open>
  \<^verbatim>\<open>HashTableSlot.objects.get_or_create(...)\<close>: the row, whether it was created, and the
  rows afterwards.
\<close>

definition get_or_create :: "slot_rows \<Rightarrow> int \<Rightarrow> (HashTableSlot \<times> bool) \<times> slot_rows" where
  "get_or_create rows index =
     (case map_of rows index of
        None \<Rightarrow> ((new_slot, True), rows @ [(index, new_slot)])
      | Some slot \<Rightarrow> ((slot, False), rows))"

text \<open>Python's \<^verbatim>\<open>a % b\<close> on integers: floor modulo, division by zero raises.\<close>

definition py_mod :: "int \<Rightarrow> int \<Rightarrow> error + int" where
  "py_mod a b = (if b = 0 then Inl ZeroDivisionError else Inr (a mod b))"

section \<open>HashTable (the abstract class)\<close>

text \<open>
  \<^verbatim>\<open>_initialize_table_slots\<close>: \<^verbatim>\<open>get_or_create\<close> for every index of \<^verbatim>\<open>range(self.size)\<close>,
  which is empty when the size is not positive.
\<close>

fun initialize_table_slots :: "int list \<Rightarrow> slot_rows \<Rightarrow> slot_rows" where
  "initialize_table_slots [] rows = rows"
| "initialize_table_slots (i # is) rows = initialize_table_slots is (snd (get_or_create rows i))"

text \<open>
  \<^verbatim>\<open>HashTable.__init__(self, size, algorithm_type)\<close>, run on the rows the database holds for
  that algorithm type. The source has no check of the size and no \<^verbatim>\<open>raise\<close>: the result is
  always \<open>Inr\<close>.
\<close>

definition HashTable_init :: "int \<Rightarrow> algorithm \<Rightarrow> slot_rows \<Rightarrow> error + HashTable" where
  "HashTable_init sz algorithm rows =
     Inr \<lparr>size' = sz, algorithm_type = algorithm, collisions_count = 0, probes_count = 0,
          slots = initialize_table_slots [0..sz - 1] rows\<rparr>"

definition ChainingHashTable_init :: "int \<Rightarrow> slot_rows \<Rightarrow> error + HashTable" where
  "ChainingHashTable_init sz rows = HashTable_init sz chaining rows"

definition LinearProbingHashTable_init :: "int \<Rightarrow> slot_rows \<Rightarrow> error + HashTable" where
  "LinearProbingHashTable_init sz rows = HashTable_init sz linear_probing rows"

definition QuadraticProbingHashTable_init :: "int \<Rightarrow> slot_rows \<Rightarrow> error + HashTable" where
  "QuadraticProbingHashTable_init sz rows = HashTable_init sz quadratic_probing rows"

definition DoubleHashingHashTable_init :: "int \<Rightarrow> slot_rows \<Rightarrow> error + HashTable" where
  "DoubleHashingHashTable_init sz rows = HashTable_init sz double_hashing rows"

definition reset_stats :: "HashTable \<Rightarrow> HashTable" where
  "reset_stats T = T\<lparr>collisions_count := 0, probes_count := 0\<rparr>"

text \<open>
  \<^verbatim>\<open>_hash_function\<close>, the same in the four classes: \<^verbatim>\<open>hash(key) % self.size\<close>. Python's
  built-in \<^verbatim>\<open>hash\<close> is a parameter: any function from keys to integers.
\<close>

definition hash_function :: "(string \<Rightarrow> int) \<Rightarrow> HashTable \<Rightarrow> string \<Rightarrow> error + int" where
  "hash_function hash T key = py_mod (hash key) (size' T)"

text \<open>
  \<^verbatim>\<open>get_state\<close>: one entry per row, ordered by slot index. For chaining the entry is the
  list of the chained elements; for the other algorithms it is the pair of the slot when
  \<^verbatim>\<open>slot.key_value\<close> is truthy (not \<^verbatim>\<open>None\<close> and not the empty string), else \<^verbatim>\<open>None\<close>.
\<close>

datatype table_entry =
  Chained "(string \<times> string) list"
| Probed "(string \<times> string option) option"

record state =
  state_size :: int
  state_table :: "table_entry list"
  state_collisions_count :: int
  state_probes_count :: int
  state_algorithm :: algorithm

definition slot_entry :: "algorithm \<Rightarrow> HashTableSlot \<Rightarrow> table_entry" where
  "slot_entry algorithm slot =
     (if algorithm = chaining then Chained (chained_elements slot)
      else Probed (case key_value slot of
                     None \<Rightarrow> None
                   | Some k \<Rightarrow> if k \<noteq> [] then Some (k, actual_value slot) else None))"

definition get_state :: "HashTable \<Rightarrow> state" where
  "get_state T =
     \<lparr>state_size = size' T,
      state_table = map (\<lambda>(i, slot). slot_entry (algorithm_type T) slot) (sort_key fst (slots T)),
      state_collisions_count = collisions_count T,
      state_probes_count = probes_count T,
      state_algorithm = algorithm_type T\<rparr>"

section \<open>ChainingHashTable\<close>

text \<open>
  \<^verbatim>\<open>ChainedElement.objects.get(slot=slot, key_value=key)\<close> followed by the update of the
  element found: with no element of that key the chain is left as it is and \<open>updated\<close> is
  false; with more than one, \<^verbatim>\<open>get\<close> raises.
\<close>

definition update_existing ::
  "(string \<times> string) list \<Rightarrow> string \<Rightarrow> string \<Rightarrow> error + (bool \<times> (string \<times> string) list)" where
  "update_existing chain key value =
     (case filter (\<lambda>item. fst item = key) chain of
        [] \<Rightarrow> Inr (False, chain)
      | [existing_element] \<Rightarrow>
          Inr (True, map (\<lambda>item. if fst item = key then (fst item, value) else item) chain)
      | _ \<Rightarrow> Inl MultipleObjectsReturned)"

text \<open>
  \<^verbatim>\<open>ChainingHashTable.insert\<close>. An exception inside \<^verbatim>\<open>transaction.atomic()\<close> rolls the rows
  back, the counters stay as they were when it was raised.
\<close>

definition ChainingHashTable_insert ::
  "(string \<Rightarrow> int) \<Rightarrow> HashTable \<Rightarrow> string \<Rightarrow> string \<Rightarrow> (error + unit) \<times> HashTable" where
  "ChainingHashTable_insert hash T0 key value =
     (let T = reset_stats T0 in
      case hash_function hash T key of
        Inl e \<Rightarrow> (Inl e, T)
      | Inr index \<Rightarrow>
         (let T = T\<lparr>probes_count := probes_count T + 1\<rparr>;
              ((slot, created), rows) = get_or_create (slots T) index;
              T = (if \<not> created \<and> chained_elements slot \<noteq> []
                   then T\<lparr>collisions_count := collisions_count T + 1\<rparr> else T)
          in case update_existing (chained_elements slot) key value of
               Inl e \<Rightarrow> (Inl e, T)
             | Inr (updated, chain) \<Rightarrow>
                 (Inr (),
                  T\<lparr>slots := save rows index
                     (slot\<lparr>chained_elements :=
                        (if \<not> updated then chain @ [(key, value)] else chain)\<rparr>)\<rparr>)))"

text \<open>The \<^verbatim>\<open>for item in chained_elements\<close> loop of \<^verbatim>\<open>ChainingHashTable.search\<close>.\<close>

fun ChainingHashTable_search_loop ::
  "string \<Rightarrow> (string \<times> string) list \<Rightarrow> HashTable \<Rightarrow> string option \<times> HashTable" where
  "ChainingHashTable_search_loop key [] T = (None, T)"
| "ChainingHashTable_search_loop key (item # items) T =
     (let T = T\<lparr>probes_count := probes_count T + 1\<rparr> in
      if fst item = key then (Some (snd item), T)
      else ChainingHashTable_search_loop key items T)"

definition ChainingHashTable_search ::
  "(string \<Rightarrow> int) \<Rightarrow> HashTable \<Rightarrow> string \<Rightarrow> (error + string option) \<times> HashTable" where
  "ChainingHashTable_search hash T0 key =
     (let T = reset_stats T0 in
      case hash_function hash T key of
        Inl e \<Rightarrow> (Inl e, T)
      | Inr index \<Rightarrow>
         (let T = T\<lparr>probes_count := probes_count T + 1\<rparr> in
          case objects_get (slots T) index of
            Inl e \<Rightarrow> (Inr None, T)
          | Inr slot \<Rightarrow>
              (case ChainingHashTable_search_loop key (chained_elements slot) T of
                 (result, T) \<Rightarrow> (Inr result, T))))"

section \<open>The probing classes\<close>

text \<open>
  In the three classes \<^verbatim>\<open>insert\<close> and \<^verbatim>\<open>search\<close> reset the counters, compute the hashes,
  count one probe and run \<^verbatim>\<open>for i in range(self.size)\<close>; the loops are functions on the
  list of the values of \<open>i\<close> still to come. A slot is empty when its key is \<^verbatim>\<open>None\<close>
  (\<^verbatim>\<open>slot.key_value is None\<close>). A loop that ends without \<^verbatim>\<open>return\<close> raises the exception
  of the full table in \<^verbatim>\<open>insert\<close> and returns \<^verbatim>\<open>None\<close> in \<^verbatim>\<open>search\<close>. An exception leaves
  the object with the counters it had when it was raised, so every operation returns the
  table next to its result.
\<close>

subsection \<open>LinearProbingHashTable\<close>

fun LinearProbingHashTable_insert_loop ::
  "string \<Rightarrow> string \<Rightarrow> int \<Rightarrow> int list \<Rightarrow> HashTable \<Rightarrow> (error + unit) \<times> HashTable" where
  "LinearProbingHashTable_insert_loop key value initial_index [] T = (Inl TableFull, T)"
| "LinearProbingHashTable_insert_loop key value initial_index (i # is) T =
     (let index = (initial_index + i) mod size' T in
      case objects_get (slots T) index of
        Inl e \<Rightarrow> (Inl e, T)
      | Inr slot \<Rightarrow>
          if key_value slot = None
          then (Inr (), T\<lparr>slots := save (slots T) index
                              (slot\<lparr>key_value := Some key, actual_value := Some value\<rparr>)\<rparr>)
          else if key_value slot = Some key
          then (Inr (), T\<lparr>slots := save (slots T) index (slot\<lparr>actual_value := Some value\<rparr>)\<rparr>)
          else LinearProbingHashTable_insert_loop key value initial_index is
                 (T\<lparr>collisions_count := collisions_count T + 1,
                    probes_count := probes_count T + 1\<rparr>))"

definition LinearProbingHashTable_insert ::
  "(string \<Rightarrow> int) \<Rightarrow> HashTable \<Rightarrow> string \<Rightarrow> string \<Rightarrow> (error + unit) \<times> HashTable" where
  "LinearProbingHashTable_insert hash T0 key value =
     (let T = reset_stats T0 in
      case hash_function hash T key of
        Inl e \<Rightarrow> (Inl e, T)
      | Inr initial_index \<Rightarrow>
          LinearProbingHashTable_insert_loop key value initial_index [0..size' T - 1]
            (T\<lparr>probes_count := probes_count T + 1\<rparr>))"

fun LinearProbingHashTable_search_loop ::
  "string \<Rightarrow> int \<Rightarrow> int list \<Rightarrow> HashTable \<Rightarrow> (error + string option) \<times> HashTable" where
  "LinearProbingHashTable_search_loop key initial_index [] T = (Inr None, T)"
| "LinearProbingHashTable_search_loop key initial_index (i # is) T =
     (let index = (initial_index + i) mod size' T in
      case objects_get (slots T) index of
        Inl e \<Rightarrow> (Inl e, T)
      | Inr slot \<Rightarrow>
          if key_value slot = None then (Inr None, T)
          else if key_value slot = Some key then (Inr (actual_value slot), T)
          else LinearProbingHashTable_search_loop key initial_index is (T\<lparr>probes_count := probes_count T + 1\<rparr>))"

definition LinearProbingHashTable_search ::
  "(string \<Rightarrow> int) \<Rightarrow> HashTable \<Rightarrow> string \<Rightarrow> (error + string option) \<times> HashTable" where
  "LinearProbingHashTable_search hash T0 key =
     (let T = reset_stats T0 in
      case hash_function hash T key of
        Inl e \<Rightarrow> (Inl e, T)
      | Inr initial_index \<Rightarrow>
          LinearProbingHashTable_search_loop key initial_index [0..size' T - 1]
            (T\<lparr>probes_count := probes_count T + 1\<rparr>))"

subsection \<open>QuadraticProbingHashTable\<close>

fun QuadraticProbingHashTable_insert_loop ::
  "string \<Rightarrow> string \<Rightarrow> int \<Rightarrow> int list \<Rightarrow> HashTable \<Rightarrow> (error + unit) \<times> HashTable" where
  "QuadraticProbingHashTable_insert_loop key value initial_index [] T = (Inl TableFull, T)"
| "QuadraticProbingHashTable_insert_loop key value initial_index (i # is) T =
     (let index = (initial_index + i * i) mod size' T in
      case objects_get (slots T) index of
        Inl e \<Rightarrow> (Inl e, T)
      | Inr slot \<Rightarrow>
          if key_value slot = None
          then (Inr (), T\<lparr>slots := save (slots T) index
                              (slot\<lparr>key_value := Some key, actual_value := Some value\<rparr>)\<rparr>)
          else if key_value slot = Some key
          then (Inr (), T\<lparr>slots := save (slots T) index (slot\<lparr>actual_value := Some value\<rparr>)\<rparr>)
          else QuadraticProbingHashTable_insert_loop key value initial_index is
                 (T\<lparr>collisions_count := collisions_count T + 1,
                    probes_count := probes_count T + 1\<rparr>))"

definition QuadraticProbingHashTable_insert ::
  "(string \<Rightarrow> int) \<Rightarrow> HashTable \<Rightarrow> string \<Rightarrow> string \<Rightarrow> (error + unit) \<times> HashTable" where
  "QuadraticProbingHashTable_insert hash T0 key value =
     (let T = reset_stats T0 in
      case hash_function hash T key of
        Inl e \<Rightarrow> (Inl e, T)
      | Inr initial_index \<Rightarrow>
          QuadraticProbingHashTable_insert_loop key value initial_index [0..size' T - 1]
            (T\<lparr>probes_count := probes_count T + 1\<rparr>))"

fun QuadraticProbingHashTable_search_loop ::
  "string \<Rightarrow> int \<Rightarrow> int list \<Rightarrow> HashTable \<Rightarrow> (error + string option) \<times> HashTable" where
  "QuadraticProbingHashTable_search_loop key initial_index [] T = (Inr None, T)"
| "QuadraticProbingHashTable_search_loop key initial_index (i # is) T =
     (let index = (initial_index + i * i) mod size' T in
      case objects_get (slots T) index of
        Inl e \<Rightarrow> (Inl e, T)
      | Inr slot \<Rightarrow>
          if key_value slot = None then (Inr None, T)
          else if key_value slot = Some key then (Inr (actual_value slot), T)
          else QuadraticProbingHashTable_search_loop key initial_index is (T\<lparr>probes_count := probes_count T + 1\<rparr>))"

definition QuadraticProbingHashTable_search ::
  "(string \<Rightarrow> int) \<Rightarrow> HashTable \<Rightarrow> string \<Rightarrow> (error + string option) \<times> HashTable" where
  "QuadraticProbingHashTable_search hash T0 key =
     (let T = reset_stats T0 in
      case hash_function hash T key of
        Inl e \<Rightarrow> (Inl e, T)
      | Inr initial_index \<Rightarrow>
          QuadraticProbingHashTable_search_loop key initial_index [0..size' T - 1]
            (T\<lparr>probes_count := probes_count T + 1\<rparr>))"

subsection \<open>DoubleHashingHashTable\<close>

text \<open>\<^verbatim>\<open>_hash_function2\<close>: \<^verbatim>\<open>h = hash(key) % (self.size - 1); return h + 1\<close>.\<close>

definition hash_function2 :: "(string \<Rightarrow> int) \<Rightarrow> HashTable \<Rightarrow> string \<Rightarrow> error + int" where
  "hash_function2 hash T key =
     (case py_mod (hash key) (size' T - 1) of Inl e \<Rightarrow> Inl e | Inr h \<Rightarrow> Inr (h + 1))"

fun DoubleHashingHashTable_insert_loop ::
  "string \<Rightarrow> string \<Rightarrow> int \<Rightarrow> int \<Rightarrow> int list \<Rightarrow> HashTable \<Rightarrow> (error + unit) \<times> HashTable" where
  "DoubleHashingHashTable_insert_loop key value h1 h2 [] T = (Inl TableFull, T)"
| "DoubleHashingHashTable_insert_loop key value h1 h2 (i # is) T =
     (let index = (h1 + i * h2) mod size' T in
      case objects_get (slots T) index of
        Inl e \<Rightarrow> (Inl e, T)
      | Inr slot \<Rightarrow>
          if key_value slot = None
          then (Inr (), T\<lparr>slots := save (slots T) index
                              (slot\<lparr>key_value := Some key, actual_value := Some value\<rparr>)\<rparr>)
          else if key_value slot = Some key
          then (Inr (), T\<lparr>slots := save (slots T) index (slot\<lparr>actual_value := Some value\<rparr>)\<rparr>)
          else DoubleHashingHashTable_insert_loop key value h1 h2 is
                 (T\<lparr>collisions_count := collisions_count T + 1,
                    probes_count := probes_count T + 1\<rparr>))"

definition DoubleHashingHashTable_insert ::
  "(string \<Rightarrow> int) \<Rightarrow> HashTable \<Rightarrow> string \<Rightarrow> string \<Rightarrow> (error + unit) \<times> HashTable" where
  "DoubleHashingHashTable_insert hash T0 key value =
     (let T = reset_stats T0 in
      case hash_function hash T key of
        Inl e \<Rightarrow> (Inl e, T)
      | Inr h1 \<Rightarrow>
         (case hash_function2 hash T key of
            Inl e \<Rightarrow> (Inl e, T)
          | Inr h2 \<Rightarrow>
              DoubleHashingHashTable_insert_loop key value h1 h2 [0..size' T - 1]
                (T\<lparr>probes_count := probes_count T + 1\<rparr>)))"

fun DoubleHashingHashTable_search_loop ::
  "string \<Rightarrow> int \<Rightarrow> int \<Rightarrow> int list \<Rightarrow> HashTable \<Rightarrow> (error + string option) \<times> HashTable" where
  "DoubleHashingHashTable_search_loop key h1 h2 [] T = (Inr None, T)"
| "DoubleHashingHashTable_search_loop key h1 h2 (i # is) T =
     (let index = (h1 + i * h2) mod size' T in
      case objects_get (slots T) index of
        Inl e \<Rightarrow> (Inl e, T)
      | Inr slot \<Rightarrow>
          if key_value slot = None then (Inr None, T)
          else if key_value slot = Some key then (Inr (actual_value slot), T)
          else DoubleHashingHashTable_search_loop key h1 h2 is (T\<lparr>probes_count := probes_count T + 1\<rparr>))"

definition DoubleHashingHashTable_search ::
  "(string \<Rightarrow> int) \<Rightarrow> HashTable \<Rightarrow> string \<Rightarrow> (error + string option) \<times> HashTable" where
  "DoubleHashingHashTable_search hash T0 key =
     (let T = reset_stats T0 in
      case hash_function hash T key of
        Inl e \<Rightarrow> (Inl e, T)
      | Inr h1 \<Rightarrow>
         (case hash_function2 hash T key of
            Inl e \<Rightarrow> (Inl e, T)
          | Inr h2 \<Rightarrow>
              DoubleHashingHashTable_search_loop key h1 h2 [0..size' T - 1]
                (T\<lparr>probes_count := probes_count T + 1\<rparr>)))"

section \<open>Calling a table\<close>

text \<open>
  \<^verbatim>\<open>table.insert(key, value)\<close> and \<^verbatim>\<open>table.search(key)\<close> run the method of the object's
  class; each class sets its own \<^verbatim>\<open>algorithm_type\<close> in \<^verbatim>\<open>__init__\<close>, so the field tells the
  class.
\<close>

definition HashTable_insert ::
  "(string \<Rightarrow> int) \<Rightarrow> HashTable \<Rightarrow> string \<Rightarrow> string \<Rightarrow> (error + unit) \<times> HashTable" where
  "HashTable_insert hash T key value =
     (case algorithm_type T of
        chaining \<Rightarrow> ChainingHashTable_insert hash T key value
      | linear_probing \<Rightarrow> LinearProbingHashTable_insert hash T key value
      | quadratic_probing \<Rightarrow> QuadraticProbingHashTable_insert hash T key value
      | double_hashing \<Rightarrow> DoubleHashingHashTable_insert hash T key value)"

definition HashTable_search ::
  "(string \<Rightarrow> int) \<Rightarrow> HashTable \<Rightarrow> string \<Rightarrow> (error + string option) \<times> HashTable" where
  "HashTable_search hash T key =
     (case algorithm_type T of
        chaining \<Rightarrow> ChainingHashTable_search hash T key
      | linear_probing \<Rightarrow> LinearProbingHashTable_search hash T key
      | quadratic_probing \<Rightarrow> QuadraticProbingHashTable_search hash T key
      | double_hashing \<Rightarrow> DoubleHashingHashTable_search hash T key)"

section \<open>Notions used to state the properties\<close>

text \<open>
  The candidate index of iteration \<open>i\<close>, as each class computes it:
  \<^verbatim>\<open>(initial_index + i) % size\<close>, \<^verbatim>\<open>(initial_index + i * i) % size\<close> and
  \<^verbatim>\<open>(h1 + i * h2) % size\<close>, with the hashes written out.
\<close>

definition probe_index :: "algorithm \<Rightarrow> (string \<Rightarrow> int) \<Rightarrow> int \<Rightarrow> string \<Rightarrow> int \<Rightarrow> int" where
  "probe_index algorithm hash n key i =
     (case algorithm of
        chaining \<Rightarrow> hash key mod n
      | linear_probing \<Rightarrow> (hash key mod n + i) mod n
      | quadratic_probing \<Rightarrow> (hash key mod n + i * i) mod n
      | double_hashing \<Rightarrow> (hash key mod n + i * (hash key mod (n - 1) + 1)) mod n)"

text \<open>
  The hashes of a class can be computed: no \<^verbatim>\<open>%\<close> divides by zero. \<^verbatim>\<open>_hash_function\<close>
  divides by the size, \<^verbatim>\<open>_hash_function2\<close> by the size minus one.
\<close>

definition hashes_defined :: "algorithm \<Rightarrow> int \<Rightarrow> bool" where
  "hashes_defined algorithm n = (n \<noteq> 0 \<and> (algorithm = double_hashing \<longrightarrow> n \<noteq> 1))"

text \<open>The slot of index \<open>j\<close> exists and holds a key other than \<open>key\<close>.\<close>

definition held_by_other :: "slot_rows \<Rightarrow> string \<Rightarrow> int \<Rightarrow> bool" where
  "held_by_other rows key j =
     (case map_of rows j of
        None \<Rightarrow> False
      | Some slot \<Rightarrow> key_value slot \<noteq> None \<and> key_value slot \<noteq> Some key)"


text \<open>
  The shape the three insert loops share, over any function \<open>p\<close> from \<open>i\<close> to the candidate
  index. The two branches that return write the same row: where the key of the slot is
  already \<open>key\<close>, setting it again changes nothing. Each loop of the source is proved equal
  to this one below.
\<close>

fun probe_insert_loop ::
  "(int \<Rightarrow> int) \<Rightarrow> string \<Rightarrow> string \<Rightarrow> int list \<Rightarrow> HashTable \<Rightarrow> (error + unit) \<times> HashTable" where
  "probe_insert_loop p key value [] T = (Inl TableFull, T)"
| "probe_insert_loop p key value (i # is) T =
     (case objects_get (slots T) (p i) of
        Inl e \<Rightarrow> (Inl e, T)
      | Inr slot \<Rightarrow>
          if key_value slot = None \<or> key_value slot = Some key
          then (Inr (), T\<lparr>slots := save (slots T) (p i)
                              (slot\<lparr>key_value := Some key, actual_value := Some value\<rparr>)\<rparr>)
          else probe_insert_loop p key value is
                 (T\<lparr>collisions_count := collisions_count T + 1,
                    probes_count := probes_count T + 1\<rparr>))"

fun probe_search_loop ::
  "(int \<Rightarrow> int) \<Rightarrow> string \<Rightarrow> int list \<Rightarrow> HashTable \<Rightarrow> (error + string option) \<times> HashTable" where
  "probe_search_loop p key [] T = (Inr None, T)"
| "probe_search_loop p key (i # is) T =
     (case objects_get (slots T) (p i) of
        Inl e \<Rightarrow> (Inl e, T)
      | Inr slot \<Rightarrow>
          if key_value slot = None then (Inr None, T)
          else if key_value slot = Some key then (Inr (actual_value slot), T)
          else probe_search_loop p key is (T\<lparr>probes_count := probes_count T + 1\<rparr>))"


text \<open>
  A hash function for the examples: the sum of the character codes of the key.
\<close>

definition ord_sum :: "string \<Rightarrow> int" where
  "ord_sum key = sum_list (map (\<lambda>c. int (of_char c)) key)"

text \<open>The table a constructor makes on a database with no row of that algorithm type.\<close>

definition empty_table :: "algorithm \<Rightarrow> int \<Rightarrow> HashTable" where
  "empty_table algorithm sz = projr (HashTable_init sz algorithm [])"


section \<open>The loops of the source and the shared loops\<close>

lemma slot_same_key:
  "key_value slot = Some key \<Longrightarrow>
   slot\<lparr>key_value := Some key, actual_value := v\<rparr> = slot\<lparr>actual_value := v\<rparr>"
  by simp

lemma LinearProbingHashTable_insert_loop_eq:
  "LinearProbingHashTable_insert_loop key value ii is T =
   probe_insert_loop (\<lambda>i. (ii + i) mod size' T) key value is T"
  by (induction "is" arbitrary: T) (auto simp: Let_def slot_same_key split: sum.splits)

lemma QuadraticProbingHashTable_insert_loop_eq:
  "QuadraticProbingHashTable_insert_loop key value ii is T =
   probe_insert_loop (\<lambda>i. (ii + i * i) mod size' T) key value is T"
  by (induction "is" arbitrary: T) (auto simp: Let_def slot_same_key split: sum.splits)

lemma DoubleHashingHashTable_insert_loop_eq:
  "DoubleHashingHashTable_insert_loop key value h1 h2 is T =
   probe_insert_loop (\<lambda>i. (h1 + i * h2) mod size' T) key value is T"
  by (induction "is" arbitrary: T) (auto simp: Let_def slot_same_key split: sum.splits)



lemma DoubleHashingHashTable_search_loop_eq:
  "DoubleHashingHashTable_search_loop key h1 h2 is T =
   probe_search_loop (\<lambda>i. (h1 + i * h2) mod size' T) key is T"
  by (induction "is" arbitrary: T) (auto simp: Let_def split: sum.splits)

lemma probe_index_fun:
  "probe_index linear_probing hash n key = (\<lambda>i. (hash key mod n + i) mod n)"
  "probe_index quadratic_probing hash n key = (\<lambda>i. (hash key mod n + i * i) mod n)"
  "probe_index double_hashing hash n key =
     (\<lambda>i. (hash key mod n + i * (hash key mod (n - 1) + 1)) mod n)"
  by (simp_all add: fun_eq_iff probe_index_def)

lemma HashTable_insert_probing:
  assumes "algorithm_type T \<noteq> chaining"
  shows "HashTable_insert hash T key value =
     (if hashes_defined (algorithm_type T) (size' T)
      then probe_insert_loop (probe_index (algorithm_type T) hash (size' T) key) key value
             [0..size' T - 1] (T\<lparr>collisions_count := 0, probes_count := 1\<rparr>)
      else (Inl ZeroDivisionError, T\<lparr>collisions_count := 0, probes_count := 0\<rparr>))"
  using assms
  by (cases "algorithm_type T")
     (auto simp: HashTable_insert_def LinearProbingHashTable_insert_def
        QuadraticProbingHashTable_insert_def DoubleHashingHashTable_insert_def
        LinearProbingHashTable_insert_loop_eq QuadraticProbingHashTable_insert_loop_eq
        DoubleHashingHashTable_insert_loop_eq hash_function_def hash_function2_def py_mod_def
        reset_stats_def probe_index_fun hashes_defined_def Let_def)


section \<open>Rows, and what the shared loops do\<close>

lemma map_of_save:
  "map_of (save rows j s) = (if j \<in> fst ` set rows then (map_of rows)(j \<mapsto> s) else map_of rows)"
  by (induction rows) (auto simp: save_def fun_eq_iff)

lemma map_of_save_present:
  "map_of rows j = Some s0 \<Longrightarrow> map_of (save rows j s) = (map_of rows)(j \<mapsto> s)"
  by (auto simp: map_of_save dest: map_of_SomeD intro: rev_image_eqI)


lemma objects_get_Inr: "objects_get rows j = Inr slot \<longleftrightarrow> map_of rows j = Some slot"
  by (simp add: objects_get_def split: option.splits)

lemma objects_get_Inl: "objects_get rows j = Inl e \<longleftrightarrow> map_of rows j = None \<and> e = DoesNotExist"
  by (auto simp: objects_get_def split: option.splits)



lemma probe_insert_loop_error_slots:
  "fst (probe_insert_loop p key value is T) = Inl e \<Longrightarrow>
   slots (snd (probe_insert_loop p key value is T)) = slots T"
  by (induction "is" arbitrary: T) (auto split: sum.splits if_splits)


lemma probe_insert_loop_success:
  "fst (probe_insert_loop p key value is T) = Inr () \<Longrightarrow>
   \<exists>is1 i is2 slot. is = is1 @ i # is2 \<and>
     (\<forall>i' \<in> set is1. held_by_other (slots T) key (p i')) \<and>
     map_of (slots T) (p i) = Some slot \<and>
     (key_value slot = None \<or> key_value slot = Some key) \<and>
     slots (snd (probe_insert_loop p key value is T)) =
       save (slots T) (p i) (slot\<lparr>key_value := Some key, actual_value := Some value\<rparr>)"
proof (induction "is" arbitrary: T)
  case Nil
  then show ?case by simp
next
  case (Cons a "is")
  show ?case
  proof (cases "map_of (slots T) (p a)")
    case None
    with Cons.prems show ?thesis by (simp add: objects_get_def)
  next
    case (Some slot)
    show ?thesis
    proof (cases "key_value slot = None \<or> key_value slot = Some key")
      case True
      have "a # is = [] @ a # is" by simp
      moreover have "slots (snd (probe_insert_loop p key value (a # is) T)) =
          save (slots T) (p a) (slot\<lparr>key_value := Some key, actual_value := Some value\<rparr>)"
        using Some True by (auto simp: objects_get_def)
      ultimately show ?thesis using Some True by force
    next
      case False
      let ?T = "T\<lparr>collisions_count := collisions_count T + 1, probes_count := probes_count T + 1\<rparr>"
      have step: "probe_insert_loop p key value (a # is) T = probe_insert_loop p key value is ?T"
        using Some False by (auto simp: objects_get_def)
      with Cons.prems have "fst (probe_insert_loop p key value is ?T) = Inr ()" by simp
      from Cons.IH [OF this] obtain is1 i is2 slot' where
        *: "is = is1 @ i # is2" "\<forall>i' \<in> set is1. held_by_other (slots T) key (p i')"
           "map_of (slots T) (p i) = Some slot'"
           "key_value slot' = None \<or> key_value slot' = Some key"
           "slots (snd (probe_insert_loop p key value is ?T)) =
              save (slots T) (p i) (slot'\<lparr>key_value := Some key, actual_value := Some value\<rparr>)"
        by auto
      have held: "held_by_other (slots T) key (p a)"
        using Some False by (simp add: held_by_other_def)
      have "a # is = (a # is1) @ i # is2" using * by simp
      moreover have "\<forall>i' \<in> set (a # is1). held_by_other (slots T) key (p i')"
        using * held by simp
      ultimately show ?thesis using * step by metis
    qed
  qed
qed



section \<open>Chaining: insert, then search\<close>







section \<open>Probing: insert, then search\<close>



lemma HashTable_insert_chaining:
  "algorithm_type T = chaining \<Longrightarrow>
   HashTable_insert hash T key value = ChainingHashTable_insert hash T key value"
  by (simp add: HashTable_insert_def)



section \<open>More facts about the operations\<close>

subsection \<open>Construction\<close>

lemma initialize_table_slots_fresh:
  "distinct is \<Longrightarrow> set is \<inter> fst ` set rows = {} \<Longrightarrow>
   initialize_table_slots is rows = rows @ map (\<lambda>i. (i, new_slot)) is"
proof (induction "is" arbitrary: rows)
  case Nil
  then show ?case by simp
next
  case (Cons a "is")
  from Cons.prems have "map_of rows a = None"
    by (simp add: map_of_eq_None_iff)
  then have step: "snd (get_or_create rows a) = rows @ [(a, new_slot)]"
    by (simp add: get_or_create_def)
  have "set is \<inter> fst ` set (rows @ [(a, new_slot)]) = {}"
    using Cons.prems by auto
  with Cons.prems Cons.IH [of "rows @ [(a, new_slot)]"] step show ?case by simp
qed

lemma HashTable_init_fresh:
  "HashTable_init sz algorithm [] =
     Inr \<lparr>size' = sz, algorithm_type = algorithm, collisions_count = 0, probes_count = 0,
          slots = map (\<lambda>i. (i, new_slot)) [0..sz - 1]\<rparr>"
  by (simp add: HashTable_init_def initialize_table_slots_fresh)

subsection \<open>Counters and errors\<close>

lemma reset_stats_counters:
  "reset_stats (T\<lparr>collisions_count := c, probes_count := p\<rparr>) = reset_stats T"
  by (simp add: reset_stats_def)

lemma probe_insert_loop_no_zero_division:
  "fst (probe_insert_loop p key value is T) \<noteq> Inl ZeroDivisionError"
  by (induction "is" arbitrary: T) (auto simp: objects_get_def split: option.splits)

lemma probe_search_loop_no_zero_division:
  "fst (probe_search_loop p key is T) \<noteq> Inl ZeroDivisionError"
  by (induction "is" arbitrary: T) (auto simp: objects_get_def split: option.splits)

lemma ChainingHashTable_insert_error:
  "fst (ChainingHashTable_insert hash T key value) = Inl e \<Longrightarrow>
   e \<noteq> TableFull \<and> slots (snd (ChainingHashTable_insert hash T key value)) = slots T"
  by (auto simp: ChainingHashTable_insert_def Let_def reset_stats_def hash_function_def
      py_mod_def update_existing_def split: sum.splits prod.splits if_splits list.splits)


lemma insert_error_keeps_slots:
  assumes "fst (HashTable_insert hash T key value) = Inl e"
  shows "slots (snd (HashTable_insert hash T key value)) = slots T"
proof (cases "algorithm_type T = chaining")
  case True
  then show ?thesis
    using assms ChainingHashTable_insert_error [of hash T key "value" e]
    by (simp add: HashTable_insert_chaining)
next
  case False
  show ?thesis
  proof (cases "hashes_defined (algorithm_type T) (size' T)")
    case True
    then show ?thesis
      using assms False
        probe_insert_loop_error_slots [of "probe_index (algorithm_type T) hash (size' T) key"
          key "value" "[0..size' T - 1]" "T\<lparr>collisions_count := 0, probes_count := 1\<rparr>" e]
      by (simp add: HashTable_insert_probing)
  next
    case False
    then show ?thesis using \<open>algorithm_type T \<noteq> chaining\<close>
      by (simp add: HashTable_insert_probing)
  qed
qed

lemma probe_insert_loop_collisions_mono:
  "collisions_count T \<le> collisions_count (snd (probe_insert_loop p key value is T))"
proof (induction "is" arbitrary: T)
  case Nil
  then show ?case by simp
next
  case (Cons a "is")
  have "collisions_count T \<le> collisions_count T + 1" by simp
  also have "\<dots> \<le> collisions_count (snd (probe_insert_loop p key value is
        (T\<lparr>collisions_count := collisions_count T + 1, probes_count := probes_count T + 1\<rparr>)))"
    using Cons.IH [of "T\<lparr>collisions_count := collisions_count T + 1, probes_count := probes_count T + 1\<rparr>"]
    by simp
  finally show ?case by (auto split: sum.splits)
qed

lemma probe_insert_loop_first:
  "collisions_count (snd (probe_insert_loop p key value (i # is) T)) = collisions_count T \<longleftrightarrow>
   \<not> held_by_other (slots T) key (p i)"
proof (cases "held_by_other (slots T) key (p i)")
  case True
  let ?T = "T\<lparr>collisions_count := collisions_count T + 1, probes_count := probes_count T + 1\<rparr>"
  from True have "probe_insert_loop p key value (i # is) T = probe_insert_loop p key value is ?T"
    by (auto simp: held_by_other_def objects_get_def split: option.splits)
  moreover have "collisions_count T + 1 \<le> collisions_count (snd (probe_insert_loop p key value is ?T))"
    using probe_insert_loop_collisions_mono [of ?T p key "value" "is"] by simp
  ultimately show ?thesis using True by simp
next
  case False
  then show ?thesis
    by (auto simp: held_by_other_def objects_get_def split: option.splits)
qed

lemma probe_index_zero:
  "algorithm \<noteq> chaining \<Longrightarrow> probe_index algorithm hash n key 0 = hash key mod n"
  by (cases algorithm) (simp_all add: probe_index_def)

lemma probe_insert_loop_keeps_held:
  assumes "held_by_other (slots T) key j"
  shows "map_of (slots (snd (probe_insert_loop p key value is T))) j = map_of (slots T) j"
proof (cases "fst (probe_insert_loop p key value is T)")
  case (Inl e)
  then show ?thesis by (simp add: probe_insert_loop_error_slots)
next
  case (Inr u)
  then have "fst (probe_insert_loop p key value is T) = Inr ()" by simp
  from probe_insert_loop_success [OF this] obtain i slot where
    *: "map_of (slots T) (p i) = Some slot" "key_value slot = None \<or> key_value slot = Some key"
       "slots (snd (probe_insert_loop p key value is T)) =
          save (slots T) (p i) (slot\<lparr>key_value := Some key, actual_value := Some value\<rparr>)"
    by auto
  with assms have "j \<noteq> p i" by (auto simp: held_by_other_def)
  with * show ?thesis by (simp add: map_of_save_present)
qed

subsection \<open>Fields that no operation changes\<close>




subsection \<open>The invariant of the reachable tables\<close>








subsection \<open>Evaluation of the examples\<close>

lemmas run =
  empty_table_def HashTable_init_def get_or_create_def new_slot_def objects_get_def save_def
  py_mod_def reset_stats_def hash_function_def hash_function2_def ord_sum_def upto_rec1
  HashTable_insert_def HashTable_search_def
  ChainingHashTable_insert_def ChainingHashTable_search_def update_existing_def
  LinearProbingHashTable_insert_def LinearProbingHashTable_search_def
  QuadraticProbingHashTable_insert_def QuadraticProbingHashTable_search_def
  DoubleHashingHashTable_insert_def DoubleHashingHashTable_search_def
  held_by_other_def probe_index_def

section \<open>The claims\<close>



text \<open>
  Claim C2, as amended. In the three probing classes the iteration \<open>i = 0\<close> of \<^verbatim>\<open>insert\<close>
  counts a collision exactly when the home slot is held by another key: then
  \<^verbatim>\<open>collisions_count\<close> is at least 1 when the call ends. When the home slot is missing,
  empty or holds the key itself, the call ends with \<^verbatim>\<open>collisions_count\<close> 0. (The size is
  positive, and at least 2 for double hashing, so that the loop has an iteration 0.)
\<close>

theorem first_iteration_collision:
  assumes "algorithm_type T \<noteq> chaining" and "0 < size' T"
    and "hashes_defined (algorithm_type T) (size' T)"
  shows "(held_by_other (slots T) key (hash key mod size' T) \<longrightarrow>
            1 \<le> collisions_count (snd (HashTable_insert hash T key value))) \<and>
         (\<not> held_by_other (slots T) key (hash key mod size' T) \<longrightarrow>
            collisions_count (snd (HashTable_insert hash T key value)) = 0)"
proof -
  let ?p = "probe_index (algorithm_type T) hash (size' T) key"
  let ?T = "T\<lparr>collisions_count := 0, probes_count := 1\<rparr>"
  have range: "[0..size' T - 1] = 0 # [1..size' T - 1]"
    using assms(2) by (simp add: upto_rec1)
  have ins: "HashTable_insert hash T key value = probe_insert_loop ?p key value (0 # [1..size' T - 1]) ?T"
    using assms by (simp add: HashTable_insert_probing range)
  have first: "collisions_count (snd (probe_insert_loop ?p key value (0 # [1..size' T - 1]) ?T)) = 0 \<longleftrightarrow>
      \<not> held_by_other (slots T) key (hash key mod size' T)"
    using probe_insert_loop_first [of ?p key "value" 0 "[1..size' T - 1]" ?T] assms(1)
    by (simp add: probe_index_zero)
  have "0 \<le> collisions_count (snd (probe_insert_loop ?p key value (0 # [1..size' T - 1]) ?T))"
    using probe_insert_loop_collisions_mono [of ?T ?p key "value" "0 # [1..size' T - 1]"] by simp
  with first show ?thesis unfolding ins by linarith
qed

text \<open>
  An instance, the scenario of two keys with one home slot: in a table of size 10, \<open>A\<close>
  (code 65) and \<open>K\<close> (code 75) both hash to slot 5, and the insert of \<open>K\<close> counts one
  collision.
\<close>

theorem first_iteration_collision_witness:
  "algorithm_type (snd (HashTable_insert ord_sum (empty_table linear_probing 10) ''A'' ''one'')) \<noteq> chaining \<and>
   0 < size' (snd (HashTable_insert ord_sum (empty_table linear_probing 10) ''A'' ''one'')) \<and>
   held_by_other (slots (snd (HashTable_insert ord_sum (empty_table linear_probing 10) ''A'' ''one'')))
     ''K'' (ord_sum ''K'' mod 10) \<and>
   collisions_count (snd (HashTable_insert ord_sum
      (snd (HashTable_insert ord_sum (empty_table linear_probing 10) ''A'' ''one''))
      ''K'' ''two'')) = 1"
  using first_iteration_collision
    [of "snd (HashTable_insert ord_sum (empty_table linear_probing 10) ''A'' ''one'')" "''K''" ord_sum "''two''"]
  by (simp add: run hashes_defined_def)

text \<open>
  Against the claim as it was stated (the iteration \<open>i = 0\<close> never counts a collision): in
  a table of size 1 the loop has no other iteration than \<open>i = 0\<close>; with the slot held by
  \<open>A\<close>, the insert of \<open>K\<close> ends with \<^verbatim>\<open>collisions_count\<close> 1.
\<close>

theorem first_iteration_counts_counterexample:
  "size' (snd (HashTable_insert ord_sum (empty_table linear_probing 1) ''A'' ''one'')) = 1 \<and>
   HashTable_insert ord_sum
     (snd (HashTable_insert ord_sum (empty_table linear_probing 1) ''A'' ''one'')) ''K'' ''two'' =
   (Inl TableFull,
    \<lparr>size' = 1, algorithm_type = linear_probing, collisions_count = 1, probes_count = 2,
     slots = [(0, \<lparr>key_value = Some ''A'', actual_value = Some ''one'', chained_elements = []\<rparr>)]\<rparr>)"
  by (simp add: run)



text \<open>
  Claim C4, as amended. The constructor of every class returns a table for every integer
  size and never raises. On a database with no row of that algorithm type the table has
  exactly the slots of index 0 to \<open>size - 1\<close>, all empty: \<open>size\<close> slots for a positive
  size, none for a size of zero or less.
\<close>

theorem construction_never_fails:
  "HashTable_init sz algorithm rows \<noteq> Inl e \<and>
   HashTable_init sz algorithm [] =
     Inr \<lparr>size' = sz, algorithm_type = algorithm, collisions_count = 0, probes_count = 0,
          slots = map (\<lambda>i. (i, new_slot)) [0..sz - 1]\<rparr> \<and>
   length (slots (empty_table algorithm sz)) = nat sz"
  by (simp add: HashTable_init_fresh empty_table_def) (simp add: HashTable_init_def)

text \<open>
  Against the claim as it was stated (construction fails when the size is not positive):
  the constructors return a table with no slot for the sizes 0 and -3.
\<close>

theorem construction_size_zero_counterexample:
  "LinearProbingHashTable_init 0 [] =
     Inr \<lparr>size' = 0, algorithm_type = linear_probing, collisions_count = 0, probes_count = 0,
          slots = []\<rparr> \<and>
   ChainingHashTable_init (- 3) [] =
     Inr \<lparr>size' = - 3, algorithm_type = chaining, collisions_count = 0, probes_count = 0,
          slots = []\<rparr>"
  by (simp add: LinearProbingHashTable_init_def ChainingHashTable_init_def HashTable_init_def)



text \<open>
  Claim C6. \<^verbatim>\<open>insert\<close> and \<^verbatim>\<open>search\<close> of every class begin with \<^verbatim>\<open>reset_stats\<close>: the result of
  a call, counters included, is the same whatever the two counters were before the call.
\<close>

theorem stats_reset_each_call:
  "HashTable_insert hash (T\<lparr>collisions_count := c, probes_count := p\<rparr>) key value =
     HashTable_insert hash T key value \<and>
   HashTable_search hash (T\<lparr>collisions_count := c, probes_count := p\<rparr>) key =
     HashTable_search hash T key"
  by (cases "algorithm_type T")
     (simp_all add: HashTable_insert_def HashTable_search_def
        ChainingHashTable_insert_def ChainingHashTable_search_def
        LinearProbingHashTable_insert_def LinearProbingHashTable_search_def
        QuadraticProbingHashTable_insert_def QuadraticProbingHashTable_search_def
        DoubleHashingHashTable_insert_def DoubleHashingHashTable_search_def
        reset_stats_counters)

text \<open>An instance: counters left at 7 and 9 do not show after the next insert.\<close>

theorem stats_reset_each_call_witness:
  "HashTable_insert ord_sum
     ((empty_table chaining 2)\<lparr>collisions_count := 7, probes_count := 9\<rparr>) ''A'' ''one'' =
   (Inr (), \<lparr>size' = 2, algorithm_type = chaining, collisions_count = 0, probes_count = 1,
     slots = [(0, new_slot),
              (1, \<lparr>key_value = None, actual_value = None,
                   chained_elements = [(''A'', ''one'')]\<rparr>)]\<rparr>)"
  using stats_reset_each_call [of ord_sum 9 7 "empty_table chaining 2" "''A''" "''one''"]
  by (simp add: run)

text \<open>
  Claim C7, as amended. In a double-hashing table of size at least 2, \<^verbatim>\<open>_hash_function2\<close>
  returns for every key a value from 1 to \<open>size - 1\<close>, so never 0.
\<close>

theorem hash_function2_range:
  assumes "2 \<le> size' T"
  shows "\<exists>h2. hash_function2 hash T key = Inr h2 \<and> 1 \<le> h2 \<and> h2 \<le> size' T - 1"
proof -
  have pos: "0 < size' T - 1" using assms by simp
  have lower: "0 \<le> hash key mod (size' T - 1)"
    using pos by (rule pos_mod_sign)
  have upper: "hash key mod (size' T - 1) < size' T - 1"
    using pos by (rule pos_mod_bound)
  have "hash_function2 hash T key = Inr (hash key mod (size' T - 1) + 1)"
    using pos by (simp add: hash_function2_def py_mod_def)
  with lower upper show ?thesis by auto
qed

text \<open>An instance: size 10 and the key \<open>A\<close>, 65 mod 9 + 1 = 3.\<close>

theorem hash_function2_range_witness:
  "2 \<le> size' (empty_table double_hashing 10) \<and>
   hash_function2 ord_sum (empty_table double_hashing 10) ''A'' = Inr 3 \<and>
   (3::int) \<le> size' (empty_table double_hashing 10) - 1"
  using hash_function2_range [of "empty_table double_hashing 10" ord_sum "''A''"]
  by (simp add: run)

text \<open>
  Against the claim as it was stated (every double-hashing table): with size 1 the
  function divides by zero and returns no value at all.
\<close>

theorem hash_function2_size_one_counterexample:
  "size' (empty_table double_hashing 1) = 1 \<and>
   hash_function2 ord_sum (empty_table double_hashing 1) ''A'' = Inl ZeroDivisionError"
  by (simp add: empty_table_def HashTable_init_def hash_function2_def py_mod_def)

text \<open>
  Claim C8. When \<^verbatim>\<open>insert\<close> ends with an exception, that of the full table among them, the
  rows are what they were before the call: no key and no value has changed.
\<close>

theorem failed_insert_keeps_slots:
  assumes "fst (HashTable_insert hash T key value) = Inl e"
  shows "slots (snd (HashTable_insert hash T key value)) = slots T"
  using assms by (rule insert_error_keeps_slots)

text \<open>An instance: the insert of \<open>K\<close> into a full quadratic-probing table of size 1.\<close>

theorem failed_insert_keeps_slots_witness:
  "fst (HashTable_insert ord_sum
          (snd (HashTable_insert ord_sum (empty_table quadratic_probing 1) ''A'' ''one''))
          ''K'' ''two'') = Inl TableFull \<and>
   slots (snd (HashTable_insert ord_sum
          (snd (HashTable_insert ord_sum (empty_table quadratic_probing 1) ''A'' ''one''))
          ''K'' ''two'')) =
   slots (snd (HashTable_insert ord_sum (empty_table quadratic_probing 1) ''A'' ''one''))"
proof -
  have full: "fst (HashTable_insert ord_sum
          (snd (HashTable_insert ord_sum (empty_table quadratic_probing 1) ''A'' ''one''))
          ''K'' ''two'') = Inl TableFull"
    by (simp add: run)
  from full failed_insert_keeps_slots [OF full] show ?thesis by simp
qed

text \<open>
  Claim C9. In the state of a probing table, \<^verbatim>\<open>get_state\<close> shows \<^verbatim>\<open>None\<close> for every row whose
  key is falsy: \<^verbatim>\<open>None\<close>, or the empty string. Yet \<^verbatim>\<open>insert\<close> takes a slot whose key is the
  empty string as occupied: for any other key it is a slot held by another key, and the
  insert leaves it as it is.
\<close>

theorem get_state_hides_empty_key:
  assumes alg: "algorithm_type T \<noteq> chaining"
    and n: "n < length (slots T)" and row: "sort_key fst (slots T) ! n = (j, slot)"
    and falsy: "key_value slot = None \<or> key_value slot = Some ''''"
  shows "state_table (get_state T) ! n = Probed None \<and>
         (key_value slot = Some '''' \<and> map_of (slots T) j = Some slot \<and> key \<noteq> '''' \<longrightarrow>
            held_by_other (slots T) key j \<and>
            map_of (slots (snd (HashTable_insert hash T key value))) j = Some slot)"
proof -
  have "state_table (get_state T) ! n = slot_entry (algorithm_type T) slot"
    using n row by (simp add: get_state_def)
  with alg falsy have shown: "state_table (get_state T) ! n = Probed None"
    by (auto simp: slot_entry_def)
  have "held_by_other (slots T) key j \<and>
      map_of (slots (snd (HashTable_insert hash T key value))) j = Some slot"
    if "key_value slot = Some ''''" "map_of (slots T) j = Some slot" "key \<noteq> ''''"
  proof -
    from that have held: "held_by_other (slots T) key j"
      by (auto simp: held_by_other_def)
    have "map_of (slots (snd (HashTable_insert hash T key value))) j = map_of (slots T) j"
    proof (cases "hashes_defined (algorithm_type T) (size' T)")
      case True
      then show ?thesis
        using alg held
          probe_insert_loop_keeps_held [of "T\<lparr>collisions_count := 0, probes_count := 1\<rparr>" key j
            "probe_index (algorithm_type T) hash (size' T) key" "value" "[0..size' T - 1]"]
        by (simp add: HashTable_insert_probing)
    next
      case False
      then show ?thesis using alg by (simp add: HashTable_insert_probing)
    qed
    with held that show ?thesis by simp
  qed
  with shown show ?thesis by blast
qed

text \<open>
  An instance: after the insert of the empty key into a table of size 2 the state shows
  two empty slots; the insert of \<open>B\<close>, whose home is the same slot 0, then counts a
  collision and goes to slot 1.
\<close>

theorem get_state_hides_empty_key_witness:
  "HashTable_insert ord_sum (empty_table linear_probing 2) '''' ''one'' =
     (Inr (), \<lparr>size' = 2, algorithm_type = linear_probing, collisions_count = 0, probes_count = 1,
       slots = [(0, \<lparr>key_value = Some '''', actual_value = Some ''one'', chained_elements = []\<rparr>),
                (1, new_slot)]\<rparr>) \<and>
   state_table (get_state (snd (HashTable_insert ord_sum (empty_table linear_probing 2) '''' ''one'')))
     = [Probed None, Probed None] \<and>
   HashTable_insert ord_sum
     (snd (HashTable_insert ord_sum (empty_table linear_probing 2) '''' ''one'')) ''B'' ''two'' =
     (Inr (), \<lparr>size' = 2, algorithm_type = linear_probing, collisions_count = 1, probes_count = 2,
       slots = [(0, \<lparr>key_value = Some '''', actual_value = Some ''one'', chained_elements = []\<rparr>),
                (1, \<lparr>key_value = Some ''B'', actual_value = Some ''two'', chained_elements = []\<rparr>)]\<rparr>)"
  using get_state_hides_empty_key
    [of "snd (HashTable_insert ord_sum (empty_table linear_probing 2) '''' ''one'')" 0 0
        "\<lparr>key_value = Some '''', actual_value = Some ''one'', chained_elements = []\<rparr>"
        "''B''" ord_sum "''two''"]
  by (simp add: run get_state_def slot_entry_def)

text \<open>
  Claim C10. In a double-hashing table of size 1, \<^verbatim>\<open>insert\<close> and \<^verbatim>\<open>search\<close> fail with a
  division by zero for every key, since \<^verbatim>\<open>_hash_function2\<close> computes
  \<^verbatim>\<open>hash(key) % (self.size - 1)\<close>; with a size of at least 2 neither does.
\<close>

theorem double_hashing_size_one:
  "(size' T = 1 \<longrightarrow>
      fst (DoubleHashingHashTable_insert hash T key value) = Inl ZeroDivisionError \<and>
      fst (DoubleHashingHashTable_search hash T key) = Inl ZeroDivisionError) \<and>
   (2 \<le> size' T \<longrightarrow>
      fst (DoubleHashingHashTable_insert hash T key value) \<noteq> Inl ZeroDivisionError \<and>
      fst (DoubleHashingHashTable_search hash T key) \<noteq> Inl ZeroDivisionError)"
  by (auto simp: DoubleHashingHashTable_insert_def DoubleHashingHashTable_search_def
      reset_stats_def hash_function_def hash_function2_def py_mod_def
      DoubleHashingHashTable_insert_loop_eq DoubleHashingHashTable_search_loop_eq
      probe_insert_loop_no_zero_division probe_search_loop_no_zero_division)

text \<open>An instance of each: the empty tables of size 1 and of size 2, and the key \<open>A\<close>.\<close>

theorem double_hashing_size_one_witness:
  "size' (empty_table double_hashing 1) = 1 \<and>
   fst (DoubleHashingHashTable_insert ord_sum (empty_table double_hashing 1) ''A'' ''one'') =
     Inl ZeroDivisionError \<and>
   fst (DoubleHashingHashTable_search ord_sum (empty_table double_hashing 1) ''A'') =
     Inl ZeroDivisionError \<and>
   2 \<le> size' (empty_table double_hashing 2) \<and>
   fst (DoubleHashingHashTable_insert ord_sum (empty_table double_hashing 2) ''A'' ''one'') =
     Inr () \<and>
   fst (DoubleHashingHashTable_search ord_sum (empty_table double_hashing 2) ''A'') =
     Inr None"
  using double_hashing_size_one [of "empty_table double_hashing 1" ord_sum "''A''" "''one''"]
    double_hashing_size_one [of "empty_table double_hashing 2" ord_sum "''A''" "''one''"]
  by (simp add: empty_table_def HashTable_init_def get_or_create_def
      DoubleHashingHashTable_insert_def DoubleHashingHashTable_search_def
      reset_stats_def hash_function_def hash_function2_def py_mod_def
      ord_sum_def upto_rec1 objects_get_def new_slot_def save_def)

end
